theory Spec2Isabelle
  imports Complex_Main
begin

section \<open>JavaScript numbers\<close>

text \<open>
  A JavaScript number is modelled as an exact real or one of the three special values
  of IEEE arithmetic. The special values are kept because the services divide without
  a guard in places, and \<open>x / 0\<close> is \<open>Infinity\<close>, \<open>-Infinity\<close> or \<open>NaN\<close> in
  JavaScript, never an exception and never \<open>0\<close>. Binary rounding, overflow of finite
  values and the sign of zero are not modelled: finite arithmetic is exact.
\<close>

datatype jsnum = Num real | PInf | NInf | NaN

fun isNum :: "jsnum \<Rightarrow> bool" where
  "isNum (Num a) = True"
| "isNum PInf = False"
| "isNum NInf = False"
| "isNum NaN = False"

fun jadd :: "jsnum \<Rightarrow> jsnum \<Rightarrow> jsnum" where
  "jadd (Num a) (Num b) = Num (a + b)"
| "jadd NaN y = NaN"
| "jadd x NaN = NaN"
| "jadd PInf NInf = NaN"
| "jadd NInf PInf = NaN"
| "jadd PInf y = PInf"
| "jadd x PInf = PInf"
| "jadd NInf y = NInf"
| "jadd x NInf = NInf"

fun jneg :: "jsnum \<Rightarrow> jsnum" where
  "jneg (Num a) = Num (- a)"
| "jneg PInf = NInf"
| "jneg NInf = PInf"
| "jneg NaN = NaN"

definition jsub :: "jsnum \<Rightarrow> jsnum \<Rightarrow> jsnum" where
  "jsub x y = jadd x (jneg y)"

fun jmul :: "jsnum \<Rightarrow> jsnum \<Rightarrow> jsnum" where
  "jmul (Num a) (Num b) = Num (a * b)"
| "jmul NaN y = NaN"
| "jmul x NaN = NaN"
| "jmul (Num a) PInf = (if a = 0 then NaN else if 0 < a then PInf else NInf)"
| "jmul (Num a) NInf = (if a = 0 then NaN else if 0 < a then NInf else PInf)"
| "jmul PInf (Num b) = (if b = 0 then NaN else if 0 < b then PInf else NInf)"
| "jmul NInf (Num b) = (if b = 0 then NaN else if 0 < b then NInf else PInf)"
| "jmul PInf PInf = PInf"
| "jmul PInf NInf = NInf"
| "jmul NInf PInf = NInf"
| "jmul NInf NInf = PInf"

fun jdiv :: "jsnum \<Rightarrow> jsnum \<Rightarrow> jsnum" where
  "jdiv (Num a) (Num b) =
     (if b = 0 then (if a = 0 then NaN else if 0 < a then PInf else NInf)
      else Num (a / b))"
| "jdiv NaN y = NaN"
| "jdiv x NaN = NaN"
| "jdiv (Num a) PInf = Num 0"
| "jdiv (Num a) NInf = Num 0"
| "jdiv PInf (Num b) = (if b < 0 then NInf else PInf)"
| "jdiv NInf (Num b) = (if b < 0 then PInf else NInf)"
| "jdiv PInf PInf = NaN"
| "jdiv PInf NInf = NaN"
| "jdiv NInf PInf = NaN"
| "jdiv NInf NInf = NaN"

text \<open>\<open>Math.abs\<close>, \<open>Math.sqrt\<close>, \<open>Math.pow(x, 2)\<close>, \<open>Math.min\<close> and \<open>Math.max\<close>.\<close>

fun jabs :: "jsnum \<Rightarrow> jsnum" where
  "jabs (Num a) = Num \<bar>a\<bar>"
| "jabs PInf = PInf"
| "jabs NInf = PInf"
| "jabs NaN = NaN"

fun jsqrt :: "jsnum \<Rightarrow> jsnum" where
  "jsqrt (Num a) = (if a < 0 then NaN else Num (sqrt a))"
| "jsqrt PInf = PInf"
| "jsqrt NInf = NaN"
| "jsqrt NaN = NaN"

definition jpow2 :: "jsnum \<Rightarrow> jsnum" where
  "jpow2 x = jmul x x"

text \<open>The comparisons \<open>x > y\<close> and \<open>x < y\<close>: false as soon as one side is \<open>NaN\<close>.\<close>

fun jgt :: "jsnum \<Rightarrow> jsnum \<Rightarrow> bool" where
  "jgt (Num a) (Num b) = (b < a)"
| "jgt NaN y = False"
| "jgt x NaN = False"
| "jgt PInf PInf = False"
| "jgt PInf y = True"
| "jgt x PInf = False"
| "jgt NInf y = False"
| "jgt x NInf = True"

definition jlt :: "jsnum \<Rightarrow> jsnum \<Rightarrow> bool" where
  "jlt x y = jgt y x"

fun jmin :: "jsnum \<Rightarrow> jsnum \<Rightarrow> jsnum" where
  "jmin NaN y = NaN"
| "jmin x NaN = NaN"
| "jmin x y = (if jgt x y then y else x)"

fun jmax :: "jsnum \<Rightarrow> jsnum \<Rightarrow> jsnum" where
  "jmax NaN y = NaN"
| "jmax x NaN = NaN"
| "jmax x y = (if jgt y x then y else x)"

text \<open>Truthiness of a number: \<open>0\<close> and \<open>NaN\<close> are falsy.\<close>

fun truthy :: "jsnum \<Rightarrow> bool" where
  "truthy (Num a) = (a \<noteq> 0)"
| "truthy NaN = False"
| "truthy PInf = True"
| "truthy NInf = True"

text \<open>\<open>x || 0\<close>\<close>

definition orZero :: "jsnum \<Rightarrow> jsnum" where
  "orZero x = (if truthy x then x else Num 0)"

text \<open>
  \<open>Number(x.toFixed(d))\<close>: the magnitude is rounded to the nearest multiple of
  \<open>10^-d\<close>, a tie going to the larger one; from \<open>10^21\<close> on \<open>toFixed\<close> prints the
  number itself; \<open>NaN\<close> and the infinities print as themselves.
\<close>

definition roundFixed :: "real \<Rightarrow> nat \<Rightarrow> real" where
  "roundFixed a d =
     (if 10 ^ 21 \<le> \<bar>a\<bar> then a
      else sgn a * (of_int \<lfloor>\<bar>a\<bar> * 10 ^ d + 1 / 2\<rfloor> / 10 ^ d))"

fun toFixed :: "jsnum \<Rightarrow> nat \<Rightarrow> jsnum" where
  "toFixed (Num a) d = Num (roundFixed a d)"
| "toFixed PInf d = PInf"
| "toFixed NInf d = NInf"
| "toFixed NaN d = NaN"

text \<open>\<open>ToNumber\<close> of a value that is a number or \<open>null\<close>.\<close>

fun toNumber :: "jsnum option \<Rightarrow> jsnum" where
  "toNumber None = Num 0"
| "toNumber (Some x) = x"

text \<open>\<open>xs.reduce((a, b) => a + b, 0)\<close>\<close>

definition jsum :: "jsnum list \<Rightarrow> jsnum" where
  "jsum xs = foldl jadd (Num 0) xs"


section \<open>Technical indicators\<close>

text \<open>
  The methods of \<open>TechnicalIndicatorsService\<close>. A price array is a list of numbers;
  \<open>null\<close> as a result is \<open>None\<close>. The period is a natural number, as at every call
  site (7, 30, 12, 14).
\<close>

text \<open>\<open>prices.slice(-period)\<close>: the last \<open>period\<close> elements; \<open>slice(-0)\<close> is the whole array.\<close>

definition sliceLast :: "nat \<Rightarrow> 'a list \<Rightarrow> 'a list" where
  "sliceLast period xs = (if period = 0 then xs else drop (length xs - period) xs)"

definition calculateSMA :: "jsnum list \<Rightarrow> nat \<Rightarrow> jsnum option" where
  "calculateSMA prices period =
     (if length prices < period then None
      else let recent = sliceLast period prices;
               sum = jsum recent
           in Some (jdiv sum (Num (real period))))"

text \<open>One round of the loop of \<open>calculateEMA\<close>, for the price \<open>prices[i]\<close>.\<close>

definition emaStep :: "jsnum \<Rightarrow> jsnum \<Rightarrow> jsnum \<Rightarrow> jsnum" where
  "emaStep multiplier ema p =
     jadd (jmul p multiplier) (jmul ema (jsub (Num 1) multiplier))"

definition calculateEMA :: "jsnum list \<Rightarrow> nat \<Rightarrow> jsnum option" where
  "calculateEMA prices period =
     (if length prices < period then None
      else let multiplier = jdiv (Num 2) (Num (real period + 1));
               ema = jdiv (jsum (take period prices)) (Num (real period))
           in Some (foldl (emaStep multiplier) ema (drop period prices)))"

text \<open>\<open>changes[i - 1] = prices[i] - prices[i - 1]\<close> for \<open>i = 1 .. length - 1\<close>.\<close>

definition priceChanges :: "jsnum list \<Rightarrow> jsnum list" where
  "priceChanges prices =
     map (\<lambda>i. jsub (prices ! i) (prices ! (i - 1))) [1 ..< length prices]"

text \<open>One round of the loop that sums gains and losses.\<close>

fun rsiStep :: "jsnum \<times> jsnum \<Rightarrow> jsnum \<Rightarrow> jsnum \<times> jsnum" where
  "rsiStep (gains, losses) change =
     (if jgt change (Num 0) then (jadd gains change, losses)
      else (gains, jadd losses (jabs change)))"

text \<open>
  The loop runs over \<open>i = changes.length - period .. changes.length - 1\<close>, the last
  \<open>period\<close> changes; the guard before it makes sure there are that many.
\<close>

definition rsiTotals :: "jsnum list \<Rightarrow> nat \<Rightarrow> jsnum \<times> jsnum" where
  "rsiTotals prices period =
     (let changes = priceChanges prices
      in foldl rsiStep (Num 0, Num 0) (drop (length changes - period) changes))"

definition rsiAvgGain :: "jsnum list \<Rightarrow> nat \<Rightarrow> jsnum" where
  "rsiAvgGain prices period = jdiv (fst (rsiTotals prices period)) (Num (real period))"

definition rsiAvgLoss :: "jsnum list \<Rightarrow> nat \<Rightarrow> jsnum" where
  "rsiAvgLoss prices period = jdiv (snd (rsiTotals prices period)) (Num (real period))"

definition calculateRSI :: "jsnum list \<Rightarrow> nat \<Rightarrow> jsnum option" where
  "calculateRSI prices period =
     (if length prices < period + 1 then None
      else let avgGain = rsiAvgGain prices period;
               avgLoss = rsiAvgLoss prices period
           in if avgLoss = Num 0 then Some (Num 100)
              else let rs = jdiv avgGain avgLoss;
                       rsi = jsub (Num 100) (jdiv (Num 100) (jadd (Num 1) rs))
                   in Some rsi)"

text \<open>
  The returns of \<open>calculateVolatility\<close>: one for every \<open>i = 1 .. length - 1\<close> whose
  previous price is \<open>> 0\<close>.
\<close>

definition simpleReturns :: "jsnum list \<Rightarrow> jsnum list" where
  "simpleReturns prices =
     map (\<lambda>i. jdiv (jsub (prices ! i) (prices ! (i - 1))) (prices ! (i - 1)))
       (filter (\<lambda>i. jgt (prices ! (i - 1)) (Num 0)) [1 ..< length prices])"

text \<open>
  \<open>calculateVolatility\<close>, in exact arithmetic: for returns that are all equal the value
  is exactly 0 here, while the program's doubles can round the mean away from the returns
  and give a value of the order of \<open>1e-14\<close> (as for the prices 1000, 1100, 1210, 1331).
  Nothing below relies on the value in that case.
\<close>

definition calculateVolatility :: "jsnum list \<Rightarrow> jsnum option" where
  "calculateVolatility prices =
     (if length prices < 2 then None
      else let returns = simpleReturns prices;
               mean = jdiv (jsum returns) (Num (real (length returns)));
               variance = jdiv (foldl (\<lambda>sum r. jadd sum (jpow2 (jsub r mean))) (Num 0) returns)
                               (Num (real (length returns)));
               stdDev = jsqrt variance
           in Some (jmul (jmul stdDev (Num (sqrt 365))) (Num 100)))"

datatype direction = Neutral | Uptrend | Downtrend

record trend =
  direction :: direction
  strength :: jsnum
  priceChange :: jsnum

text \<open>The four sums of the regression loop, after the rounds \<open>i = 0 .. n - 1\<close>.\<close>

record regressionSums =
  sumX :: jsnum
  sumY :: jsnum
  sumXY :: jsnum
  sumX2 :: jsnum

definition regressionStep :: "jsnum list \<Rightarrow> regressionSums \<Rightarrow> nat \<Rightarrow> regressionSums" where
  "regressionStep prices s i =
     \<lparr> sumX = jadd (sumX s) (Num (real i)),
       sumY = jadd (sumY s) (prices ! i),
       sumXY = jadd (sumXY s) (jmul (Num (real i)) (prices ! i)),
       sumX2 = jadd (sumX2 s) (Num (real i * real i)) \<rparr>"

definition calculateTrend :: "jsnum list \<Rightarrow> trend" where
  "calculateTrend prices =
     (if length prices < 10
      then \<lparr> direction = Neutral, strength = Num 0, priceChange = Num 0 \<rparr>
      else let first = prices ! 0;
               last = prices ! (length prices - 1);
               priceChange = jmul (jdiv (jsub last first) first) (Num 100);
               n = Num (real (length prices));
               s = foldl (regressionStep prices)
                     \<lparr> sumX = Num 0, sumY = Num 0, sumXY = Num 0, sumX2 = Num 0 \<rparr>
                     [0 ..< length prices];
               slope = jdiv (jsub (jmul n (sumXY s)) (jmul (sumX s) (sumY s)))
                            (jsub (jmul n (sumX2 s)) (jmul (sumX s) (sumX s)));
               avgPrice = jdiv (sumY s) n;
               strength = jabs (jmul (jdiv slope avgPrice) (Num 100));
               direction = (if jgt priceChange (Num 1) then Uptrend
                            else if jlt priceChange (Num (- 1)) then Downtrend
                            else Neutral)
           in \<lparr> direction = direction,
                strength = jmin (Num 100) (jmax (Num 0) (jmul strength (Num 100))),
                priceChange = priceChange \<rparr>)"

text \<open>
  The filter \<open>p => p && p > 0\<close> on an entry that is a number or \<open>null\<close>. The entries
  that pass are numbers, so the indicator methods receive a list of numbers.
\<close>

fun validPrice :: "jsnum option \<Rightarrow> bool" where
  "validPrice None = False"
| "validPrice (Some p) = (truthy p \<and> jgt p (Num 0))"

record indicators =
  sma7 :: "jsnum option"
  sma30 :: "jsnum option"
  ema12 :: "jsnum option"
  rsi :: "jsnum option"
  volatility :: "jsnum option"
  trend :: trend
  currentPrice :: "jsnum option"

definition calculateAllIndicators :: "jsnum option list \<Rightarrow> jsnum option \<Rightarrow> indicators" where
  "calculateAllIndicators prices currentPrice' =
     (let validPrices = map toNumber (filter validPrice prices)
      in \<lparr> sma7 = calculateSMA validPrices 7,
           sma30 = calculateSMA validPrices 30,
           ema12 = calculateEMA validPrices 12,
           rsi = calculateRSI validPrices 14,
           volatility = calculateVolatility validPrices,
           trend = calculateTrend validPrices,
           currentPrice = currentPrice' \<rparr>)"


section \<open>Accuracy metrics\<close>

text \<open>
  \<open>BacktestingService.calculateMetrics\<close> on two arrays of numbers (a single number
  given as \<open>predictedPrices\<close> is first wrapped into an array). The values of its
  local variables \<open>mae\<close>, \<open>mape\<close>, \<open>rmse\<close> and \<open>directionalAccuracy\<close>, before the
  \<open>return\<close> statement rounds them, are the functions \<open>rawMae\<close>, \<open>rawMape\<close>,
  \<open>rawRmse\<close> and \<open>rawDirectionalAccuracy\<close>.
\<close>

datatype error =
    NoHistoricalData
  | NoActualPrices
  | LengthMismatch
  | CollaboratorFailure string

record metricSet =
  absoluteErrors :: "jsnum list"
  percentageErrors :: "jsnum list"
  mae :: jsnum
  mape :: jsnum
  rmse :: jsnum
  directionalAccuracy :: jsnum
  directionalCorrect :: "bool list"

definition basePrice :: "jsnum list \<Rightarrow> jsnum \<Rightarrow> nat \<Rightarrow> jsnum" where
  "basePrice actual currentPrice' i = (if i = 0 then currentPrice' else actual ! (i - 1))"

definition absoluteError :: "jsnum \<Rightarrow> jsnum \<Rightarrow> jsnum" where
  "absoluteError predictedPrice actualPrice = jabs (jsub predictedPrice actualPrice)"

definition percentageError :: "jsnum \<Rightarrow> jsnum \<Rightarrow> jsnum" where
  "percentageError predictedPrice actualPrice =
     jmul (jabs (jdiv (jsub predictedPrice actualPrice) actualPrice)) (Num 100)"

text \<open>
  \<open>predictedDirection === actualDirection\<close>, each being \<open>'up'\<close> when the price is
  \<open>> basePrice\<close> and \<open>'down'\<close> otherwise.
\<close>

definition directionMatches :: "jsnum \<Rightarrow> jsnum \<Rightarrow> jsnum \<Rightarrow> bool" where
  "directionMatches predictedPrice actualPrice base =
     (jgt predictedPrice base = jgt actualPrice base)"

definition errorsOf :: "jsnum list \<Rightarrow> jsnum list \<Rightarrow> jsnum list" where
  "errorsOf predicted actual =
     map (\<lambda>i. absoluteError (predicted ! i) (actual ! i)) [0 ..< length predicted]"

definition percentageErrorsOf :: "jsnum list \<Rightarrow> jsnum list \<Rightarrow> jsnum list" where
  "percentageErrorsOf predicted actual =
     map (\<lambda>i. percentageError (predicted ! i) (actual ! i)) [0 ..< length predicted]"

definition directionalCorrectOf :: "jsnum list \<Rightarrow> jsnum list \<Rightarrow> jsnum \<Rightarrow> bool list" where
  "directionalCorrectOf predicted actual currentPrice' =
     map (\<lambda>i. directionMatches (predicted ! i) (actual ! i) (basePrice actual currentPrice' i))
       [0 ..< length predicted]"

definition rawMae :: "jsnum list \<Rightarrow> jsnum list \<Rightarrow> jsnum" where
  "rawMae predicted actual =
     (let errors = errorsOf predicted actual
      in jdiv (jsum errors) (Num (real (length errors))))"

definition rawMape :: "jsnum list \<Rightarrow> jsnum list \<Rightarrow> jsnum" where
  "rawMape predicted actual =
     (let percentageErrors = percentageErrorsOf predicted actual
      in jdiv (jsum percentageErrors) (Num (real (length percentageErrors))))"

definition rawRmse :: "jsnum list \<Rightarrow> jsnum list \<Rightarrow> jsnum" where
  "rawRmse predicted actual =
     (let errors = errorsOf predicted actual;
          mse = jdiv (foldl (\<lambda>sum err. jadd sum (jmul err err)) (Num 0) errors)
                     (Num (real (length errors)))
      in jsqrt mse)"

definition rawDirectionalAccuracy :: "jsnum list \<Rightarrow> jsnum list \<Rightarrow> jsnum \<Rightarrow> jsnum" where
  "rawDirectionalAccuracy predicted actual currentPrice' =
     (let directionalCorrect = directionalCorrectOf predicted actual currentPrice'
      in jdiv (Num (real (length (filter (\<lambda>b. b) directionalCorrect))))
              (Num (real (length directionalCorrect))))"

definition calculateMetrics :: "jsnum list \<Rightarrow> jsnum list \<Rightarrow> jsnum \<Rightarrow> error + metricSet" where
  "calculateMetrics predicted actual currentPrice' =
     (if length predicted \<noteq> length actual then Inl LengthMismatch
      else Inr \<lparr> absoluteErrors = errorsOf predicted actual,
                 percentageErrors = percentageErrorsOf predicted actual,
                 mae = toFixed (rawMae predicted actual) 4,
                 mape = toFixed (rawMape predicted actual) 2,
                 rmse = toFixed (rawRmse predicted actual) 4,
                 directionalAccuracy =
                   toFixed (rawDirectionalAccuracy predicted actual currentPrice') 4,
                 directionalCorrect = directionalCorrectOf predicted actual currentPrice' \<rparr>)"


section \<open>Aggregation over trials\<close>

text \<open>
  \<open>calculateAggregateMetrics\<close> reads nothing of a result but its \<open>metrics\<close>, so it is
  defined on every record that has that field.
\<close>

record hasMetrics =
  metrics :: metricSet

record aggregateMetrics =
  averageMAE :: jsnum
  averageMAPE :: jsnum
  averageRMSE :: jsnum
  averageDirectionalAccuracy :: jsnum

definition calculateAggregateMetrics :: "'a hasMetrics_scheme list \<Rightarrow> aggregateMetrics" where
  "calculateAggregateMetrics results =
     (if length results = 0
      then \<lparr> averageMAE = Num 0, averageMAPE = Num 0, averageRMSE = Num 0,
             averageDirectionalAccuracy = Num 0 \<rparr>
      else let totalMAE = foldl (\<lambda>sum r. jadd sum (orZero (mae (metrics r)))) (Num 0) results;
               totalMAPE = foldl (\<lambda>sum r. jadd sum (orZero (mape (metrics r)))) (Num 0) results;
               totalRMSE = foldl (\<lambda>sum r. jadd sum (orZero (rmse (metrics r)))) (Num 0) results;
               totalDirAcc =
                 foldl (\<lambda>sum r. jadd sum (orZero (directionalAccuracy (metrics r)))) (Num 0) results;
               n = Num (real (length results))
           in \<lparr> averageMAE = toFixed (jdiv totalMAE n) 4,
                averageMAPE = toFixed (jdiv totalMAPE n) 2,
                averageRMSE = toFixed (jdiv totalRMSE n) 4,
                averageDirectionalAccuracy = toFixed (jdiv totalDirAcc n) 4 \<rparr>)"


section \<open>A single backtest\<close>

text \<open>
  A \<open>Date\<close> is its number of milliseconds since the epoch, in a time zone without
  daylight saving: \<open>setHours(0, 0, 0, 0)\<close> goes back to the start of the day and
  \<open>setDate(getDate() + k)\<close> adds \<open>k\<close> days of 86400000 ms. The ISO strings that the
  service derives from dates are left out of the records.
\<close>

definition msPerDay :: int where
  "msPerDay = 86400000"

definition startOfDay :: "int \<Rightarrow> int" where
  "startOfDay t = t - t mod msPerDay"

definition addDays :: "int \<Rightarrow> int \<Rightarrow> int" where
  "addDays t k = t + k * msPerDay"

text \<open>What the price source and the forecaster hand over. A price is a number or \<open>null\<close>.\<close>

record dataPoint =
  timestamp :: int
  price :: "jsnum option"

record datedPrice =
  date :: int
  datePrice :: "jsnum option"

record forecast =
  forecastDirection :: "string option"
  priceTarget :: "jsnum option"
  confidence :: "jsnum option"
  analysis :: "string option"

record predictionResult =
  prediction :: "forecast option"
  echoedPrice :: "jsnum option"

record formattedData =
  asset :: string
  dataPoints :: "dataPoint list"
  dataCurrentPrice :: "jsnum option"
  currentTimestamp :: int
  totalDataPoints :: nat
  timeRange :: "int \<times> int"
  technicalIndicators :: indicators
  priceChange24h :: jsnum

text \<open>
  The three awaited calls of \<open>runBacktest\<close>: \<open>coinGeckoService.getHistoricalData\<close>,
  \<open>geminiService.generatePrediction\<close> and \<open>coinGeckoService.getPricesForDates\<close>.
  Each answers or throws.
\<close>

record collaborators =
  getHistoricalData :: "string \<Rightarrow> int \<Rightarrow> int \<Rightarrow> error + dataPoint list"
  generatePrediction :: "formattedData \<Rightarrow> error + predictionResult"
  getPricesForDates :: "string \<Rightarrow> int list \<Rightarrow> error + datedPrice list"

record resultPrediction =
  resultDirection :: string
  resultPriceTarget :: "jsnum option"
  resultConfidence :: jsnum
  resultAnalysis :: string

record backtestResult = hasMetrics +
  testDate :: int
  historicalDateRange :: "int \<times> int"
  daysToPredict :: nat
  resultCurrentPrice :: "jsnum option"
  predictedPrice :: "jsnum option"
  predictedPrices :: "jsnum list"
  actualPrices :: "datedPrice list"
  resultForecast :: resultPrediction
  resultIndicators :: indicators
  dataPointsUsed :: nat

text \<open>\<open>a || b\<close> on values that are a number or absent.\<close>

fun orElse :: "jsnum option \<Rightarrow> jsnum option \<Rightarrow> jsnum option" where
  "orElse None b = b"
| "orElse (Some x) b = (if truthy x then Some x else b)"

text \<open>\<open>s || d\<close> on a string that may be absent: the empty string is falsy.\<close>

fun orString :: "string option \<Rightarrow> string \<Rightarrow> string" where
  "orString None d = d"
| "orString (Some s) d = (if s = [] then d else s)"

text \<open>
  \<open>predictionResult.prediction?.field\<close>, and the predicted price
  \<open>predictionResult.prediction?.priceTarget || predictionResult.currentPrice\<close>.
\<close>

definition forecastField :: "(forecast \<Rightarrow> 'a option) \<Rightarrow> predictionResult \<Rightarrow> 'a option" where
  "forecastField field r = (case prediction r of None \<Rightarrow> None | Some f \<Rightarrow> field f)"

definition choosePredictedPrice :: "predictionResult \<Rightarrow> jsnum option" where
  "choosePredictedPrice r = orElse (forecastField priceTarget r) (echoedPrice r)"

text \<open>
  Step 8, the array \<open>predictedPrices\<close>: the predicted price itself for one day,
  and for more days the change to it, spread evenly.
\<close>

definition synthesizePath :: "jsnum \<Rightarrow> jsnum \<Rightarrow> nat \<Rightarrow> jsnum list" where
  "synthesizePath predictedPrice' currentPrice' daysToPredict' =
     (if daysToPredict' = 1 then [predictedPrice']
      else let priceChange = jsub predictedPrice' currentPrice';
               dailyChange = jdiv priceChange (Num (real daysToPredict'))
           in map (\<lambda>i. jadd currentPrice' (jmul dailyChange (Num (real i))))
                [1 ..< Suc daysToPredict'])"

text \<open>The filter \<open>p => p != null && !isNaN(p)\<close> on the actual prices.\<close>

fun presentPrice :: "jsnum option \<Rightarrow> bool" where
  "presentPrice None = False"
| "presentPrice (Some p) = (p \<noteq> NaN)"

text \<open>
  \<open>runBacktest\<close>. An element of an array of prices is stored after \<open>ToNumber\<close>, which
  every later use of it applies anyway. The \<open>catch\<close> of the method logs and throws the
  error again, so an error of any step is the result.
\<close>

definition runBacktest ::
  "collaborators \<Rightarrow> string \<Rightarrow> int \<Rightarrow> nat \<Rightarrow> error + backtestResult" where
  "runBacktest env asset' testDate' daysToPredict' =
     (let historicalEndDate = startOfDay testDate';
          historicalStartDate = addDays historicalEndDate (- 30)
      in (case getHistoricalData env asset' historicalStartDate historicalEndDate of
            Inl e \<Rightarrow> Inl e
          | Inr historicalData \<Rightarrow>
      (if length historicalData = 0 then Inl NoHistoricalData
       else
      (let currentPrice = price (historicalData ! (length historicalData - 1));
           prices = filter validPrice (map price historicalData);
           indicators = calculateAllIndicators prices currentPrice;
           priceChange24h =
             (if 2 \<le> length historicalData
              then (let yesterdayPrice =
                          toNumber (price (historicalData ! (length historicalData - 2)))
                    in jmul (jdiv (jsub (toNumber currentPrice) yesterdayPrice) yesterdayPrice)
                         (Num 100))
              else Num 0);
           formattedData =
             \<lparr> asset = asset',
               dataPoints = historicalData,
               dataCurrentPrice = currentPrice,
               currentTimestamp = timestamp (historicalData ! (length historicalData - 1)),
               totalDataPoints = length historicalData,
               timeRange = (timestamp (historicalData ! 0),
                            timestamp (historicalData ! (length historicalData - 1))),
               technicalIndicators = indicators,
               priceChange24h = priceChange24h \<rparr>
       in (case generatePrediction env formattedData of
             Inl e \<Rightarrow> Inl e
           | Inr predictionResult \<Rightarrow>
      (let predictedPrice = choosePredictedPrice predictionResult;
           predictedDates =
             map (\<lambda>i. startOfDay (addDays testDate' (int i))) [1 ..< Suc daysToPredict']
       in (case getPricesForDates env asset' predictedDates of
             Inl e \<Rightarrow> Inl e
           | Inr actualPrices' \<Rightarrow>
      (if length actualPrices' = 0 then Inl NoActualPrices
       else
      (let synthesized =
             synthesizePath (toNumber predictedPrice) (toNumber currentPrice) daysToPredict';
           fetched = map toNumber (filter presentPrice (map datePrice actualPrices'));
           minLength = min (length synthesized) (length fetched);
           predictedPrices =
             (if length synthesized \<noteq> length fetched then take minLength synthesized
              else synthesized);
           actualPriceArray =
             (if length synthesized \<noteq> length fetched then take minLength fetched
              else fetched)
       in (case calculateMetrics predictedPrices actualPriceArray (toNumber currentPrice) of
             Inl e \<Rightarrow> Inl e
           | Inr metrics' \<Rightarrow>
      Inr \<lparr> metrics = metrics',
            testDate = testDate',
            historicalDateRange = (historicalStartDate, historicalEndDate),
            daysToPredict = daysToPredict',
            resultCurrentPrice = currentPrice,
            predictedPrice =
              (if daysToPredict' = 1 then predictedPrice
               else if predictedPrices = [] then None
               else Some (predictedPrices ! (length predictedPrices - 1))),
            predictedPrices = predictedPrices,
            actualPrices = actualPrices',
            resultForecast =
              \<lparr> resultDirection =
                  orString (forecastField forecastDirection predictionResult) ''NEUTRAL'',
                resultPriceTarget = predictedPrice,
                resultConfidence =
                  toNumber (orElse (forecastField confidence predictionResult) (Some (Num 65))),
                resultAnalysis = orString (forecastField analysis predictionResult) [] \<rparr>,
            resultIndicators = indicators,
            dataPointsUsed = length historicalData \<rparr>))))))))))"


section \<open>A batch of backtests\<close>

text \<open>
  The \<open>while\<close> loop of \<open>runMultipleBacktests\<close>: a trial that throws is logged and
  left out, a trial that returns is appended. Nothing bounds the number of rounds when
  \<open>stepDays\<close> is not positive, so the loop is a partial function: \<open>None\<close> is a run
  that never returns.
\<close>

partial_function (option) backtestLoop ::
  "(int \<Rightarrow> error + backtestResult) \<Rightarrow> int \<Rightarrow> int \<Rightarrow> int \<Rightarrow> backtestResult list
     \<Rightarrow> backtestResult list option" where
  "backtestLoop run endDate stepDays currentDate results =
     (if currentDate \<le> endDate
      then backtestLoop run endDate stepDays (addDays currentDate stepDays)
             (case run currentDate of
                Inl e \<Rightarrow> results
              | Inr result \<Rightarrow> results @ [result])
      else Some results)"

record batchResult =
  batchAsset :: string
  dateRange :: "int \<times> int"
  batchStepDays :: int
  batchDaysToPredict :: nat
  totalTests :: nat
  results :: "backtestResult list"
  aggregate :: aggregateMetrics

text \<open>
  \<open>runMultipleBacktests\<close>. Nothing after the loop throws, so a run that returns
  returns a batch result (\<open>Inr\<close>).
\<close>

definition runMultipleBacktests ::
  "collaborators \<Rightarrow> string \<Rightarrow> int \<Rightarrow> int \<Rightarrow> int \<Rightarrow> nat \<Rightarrow> (error + batchResult) option" where
  "runMultipleBacktests env asset' startDate endDate stepDays daysToPredict' =
     (case backtestLoop (\<lambda>d. runBacktest env asset' d daysToPredict') endDate stepDays startDate [] of
        None \<Rightarrow> None
      | Some results' \<Rightarrow>
          let aggregateMetrics = calculateAggregateMetrics results'
          in Some (Inr \<lparr> batchAsset = asset',
                         dateRange = (startDate, endDate),
                         batchStepDays = stepDays,
                         batchDaysToPredict = daysToPredict',
                         totalTests = length results',
                         results = results',
                         aggregate = aggregateMetrics \<rparr>))"


section \<open>Notions used in the statements and proofs\<close>

text \<open>A finite number that is not negative, and the real behind a finite number.\<close>

fun nonneg :: "jsnum \<Rightarrow> bool" where
  "nonneg (Num a) = (0 \<le> a)"
| "nonneg PInf = False"
| "nonneg NInf = False"
| "nonneg NaN = False"





text \<open>The arithmetic mean of a list of numbers.\<close>

definition jmean :: "jsnum list \<Rightarrow> jsnum" where
  "jmean xs = jdiv (jsum xs) (Num (real (length xs)))"


text \<open>An entry that is strictly positive: a number \<open>> 0\<close> or \<open>Infinity\<close>.\<close>

fun strictlyPositive :: "jsnum option \<Rightarrow> bool" where
  "strictlyPositive (Some (Num a)) = (0 < a)"
| "strictlyPositive (Some PInf) = True"
| "strictlyPositive (Some NInf) = False"
| "strictlyPositive (Some NaN) = False"
| "strictlyPositive None = False"


text \<open>
  The trial dates of a batch with a positive step: \<open>startDate\<close>,
  \<open>startDate + stepDays\<close>, ... up to \<open>endDate\<close> inclusive; the trials that return;
  and the results of those, in order.
\<close>

definition trialDates :: "int \<Rightarrow> int \<Rightarrow> int \<Rightarrow> int list" where
  "trialDates startDate endDate stepDays =
     map (\<lambda>k. addDays startDate (int k * stepDays))
       [0 ..< nat ((endDate - startDate) div (stepDays * msPerDay) + 1)]"

fun succeeds :: "error + 'a \<Rightarrow> bool" where
  "succeeds (Inl e) = False"
| "succeeds (Inr r) = True"

fun succeededTrials ::
  "(int \<Rightarrow> error + backtestResult) \<Rightarrow> int list \<Rightarrow> backtestResult list" where
  "succeededTrials run [] = []"
| "succeededTrials run (d # ds) =
     (case run d of Inl e \<Rightarrow> succeededTrials run ds | Inr r \<Rightarrow> r # succeededTrials run ds)"

text \<open>
  Collaborators for a batch of three weekly trials of which the second finds no actual
  prices: one historical point at 100, a forecast of 110, and an actual price of 105
  except for the day after the second trial date.
\<close>

definition scenarioThree :: collaborators where
  "scenarioThree =
     \<lparr> getHistoricalData = (\<lambda>a s e. Inr [\<lparr> timestamp = 0, price = Some (Num 100) \<rparr>]),
       generatePrediction =
         (\<lambda>fd. Inr \<lparr> prediction = Some \<lparr> forecastDirection = Some ''UP'',
                                          priceTarget = Some (Num 110),
                                          confidence = Some (Num 70), analysis = None \<rparr>,
                     echoedPrice = Some (Num 100) \<rparr>),
       getPricesForDates =
         (\<lambda>a ds. if ds = [691200000] then Inr []
                  else Inr [\<lparr> date = 0, datePrice = Some (Num 105) \<rparr>]) \<rparr>"


text \<open>
  Collaborators for a two-day backtest: one historical point at 100, a forecast of 110,
  and an actual price of 105 on every date asked for.
\<close>

definition scenarioFour :: collaborators where
  "scenarioFour =
     \<lparr> getHistoricalData = (\<lambda>a s e. Inr [\<lparr> timestamp = 0, price = Some (Num 100) \<rparr>]),
       generatePrediction =
         (\<lambda>fd. Inr \<lparr> prediction = Some \<lparr> forecastDirection = Some ''UP'',
                                          priceTarget = Some (Num 110),
                                          confidence = Some (Num 70), analysis = None \<rparr>,
                     echoedPrice = dataCurrentPrice fd \<rparr>),
       getPricesForDates =
         (\<lambda>a ds. Inr (map (\<lambda>d. \<lparr> date = d, datePrice = Some (Num 105) \<rparr>) ds)) \<rparr>"


section \<open>Finite arithmetic\<close>

lemma isNum_iff: "isNum x = (\<exists>a. x = Num a)"
  by (cases x) auto

lemma nonneg_iff: "nonneg x = (\<exists>a. x = Num a \<and> 0 \<le> a)"
  by (cases x) auto

lemma isNum_jsub: "isNum x \<Longrightarrow> isNum y \<Longrightarrow> isNum (jsub x y)"
  by (auto simp: isNum_iff jsub_def)


section \<open>Properties of the indicators\<close>

text \<open>
  C9. For every price sequence shorter than the window, \<open>calculateSMA\<close> and
  \<open>calculateEMA\<close> both return \<open>null\<close>: no number, and no exception (the functions
  have none to raise).
\<close>

theorem sma_ema_absent_below_window:
  "length prices < period \<Longrightarrow>
     calculateSMA prices period = None \<and> calculateEMA prices period = None"
  by (simp add: calculateSMA_def calculateEMA_def)

theorem sma_ema_absent_below_window_witness:
  "length [Num 1, Num 2, Num 3] < (7::nat) \<and>
   calculateSMA [Num 1, Num 2, Num 3] 7 = None \<and> calculateEMA [Num 1, Num 2, Num 3] 7 = None"
  using sma_ema_absent_below_window [of "[Num 1, Num 2, Num 3]" 7] by simp

subsection \<open>Relative strength index\<close>

lemma priceChanges_isNum:
  assumes "\<forall>p \<in> set prices. isNum p"
  shows "\<forall>c \<in> set (priceChanges prices). isNum c"
  using assms by (auto simp: priceChanges_def intro!: isNum_jsub)

lemma rsiStep_nonneg:
  assumes "isNum c" "nonneg g" "nonneg l"
  shows "nonneg (fst (rsiStep (g, l) c)) \<and> nonneg (snd (rsiStep (g, l) c))"
  using assms by (auto simp: isNum_iff nonneg_iff)

lemma rsi_fold_nonneg:
  assumes "\<forall>c \<in> set cs. isNum c" "nonneg (fst acc)" "nonneg (snd acc)"
  shows "nonneg (fst (foldl rsiStep acc cs)) \<and> nonneg (snd (foldl rsiStep acc cs))"
  using assms
proof (induction cs arbitrary: acc)
  case Nil
  then show ?case by simp
next
  case (Cons c cs)
  obtain g l where acc: "acc = (g, l)" by (cases acc)
  have "nonneg (fst (rsiStep acc c)) \<and> nonneg (snd (rsiStep acc c))"
    using Cons.prems rsiStep_nonneg [of c g l] by (simp add: acc)
  with Cons show ?case by simp
qed

lemma rsiTotals_nonneg:
  assumes "\<forall>p \<in> set prices. isNum p"
  shows "nonneg (fst (rsiTotals prices period)) \<and> nonneg (snd (rsiTotals prices period))"
proof -
  have "\<forall>c \<in> set (drop (length (priceChanges prices) - period) (priceChanges prices)). isNum c"
    using priceChanges_isNum [OF assms] by (meson in_set_dropD)
  then show ?thesis
    unfolding rsiTotals_def Let_def by (intro rsi_fold_nonneg) simp_all
qed

lemma rsi_value_range:
  fixes g l :: real
  assumes "0 \<le> g" "0 < l"
  shows "0 \<le> 100 - 100 / (1 + g / l)" "100 - 100 / (1 + g / l) \<le> 100"
proof -
  have q: "0 \<le> g / l" using assms by simp
  have "100 / (1 + g / l) \<le> 100 / 1"
    by (rule divide_left_mono) (use q in auto)
  then show "0 \<le> 100 - 100 / (1 + g / l)" by simp
  have "0 \<le> 100 / (1 + g / l)" using q by simp
  then show "100 - 100 / (1 + g / l) \<le> 100" by simp
qed

text \<open>
  C4. For every sequence of at least 15 strictly positive prices, \<open>calculateRSI\<close>
  with window 14 returns a number between 0 and 100; and when the average loss over
  the last 14 differences is exactly 0, it returns 100.
\<close>

theorem rsi_in_range:
  assumes len: "15 \<le> length prices"
    and pos: "\<forall>p \<in> set prices. \<exists>a. p = Num a \<and> 0 < a"
  shows "(\<exists>v. calculateRSI prices 14 = Some (Num v) \<and> 0 \<le> v \<and> v \<le> 100) \<and>
         (rsiAvgLoss prices 14 = Num 0 \<longrightarrow> calculateRSI prices 14 = Some (Num 100))"
proof -
  have fin: "\<forall>p \<in> set prices. isNum p" using pos by auto
  obtain g l where g: "fst (rsiTotals prices 14) = Num g" "0 \<le> g"
    and l: "snd (rsiTotals prices 14) = Num l" "0 \<le> l"
    using rsiTotals_nonneg [OF fin, of 14] by (auto simp: nonneg_iff)
  have ag: "rsiAvgGain prices 14 = Num (g / 14)" by (simp add: rsiAvgGain_def g)
  have al: "rsiAvgLoss prices 14 = Num (l / 14)" by (simp add: rsiAvgLoss_def l)
  have guard: "\<not> length prices < 14 + 1" using len by simp
  show ?thesis
  proof (cases "l = 0")
    case True
    then show ?thesis using guard by (simp add: calculateRSI_def ag al)
  next
    case False
    then have lpos: "0 < l" using l by simp
    have ne: "1 + g / l \<noteq> 0" using g lpos by (smt (verit) divide_nonneg_pos)
    have "calculateRSI prices 14 = Some (Num (100 - 100 / (1 + g / l)))"
      using guard False ne by (simp add: calculateRSI_def ag al Let_def jsub_def)
    then show ?thesis using rsi_value_range [OF g(2) lpos] False by (simp add: al)
  qed
qed

theorem rsi_in_range_witness:
  "15 \<le> length [Num 100, Num 102, Num 101, Num 105, Num 108, Num 107, Num 110, Num 112,
                  Num 111, Num 115, Num 114, Num 116, Num 118, Num 117, Num 120] \<and>
   (\<exists>v. calculateRSI [Num 100, Num 102, Num 101, Num 105, Num 108, Num 107, Num 110, Num 112,
                       Num 111, Num 115, Num 114, Num 116, Num 118, Num 117, Num 120] 14
         = Some (Num v) \<and> 0 \<le> v \<and> v \<le> 100) \<and>
   rsiAvgLoss [Num 100, Num 101, Num 102, Num 103, Num 104, Num 105, Num 106, Num 107,
               Num 108, Num 109, Num 110, Num 111, Num 112, Num 113, Num 114] 14 = Num 0 \<and>
   calculateRSI [Num 100, Num 101, Num 102, Num 103, Num 104, Num 105, Num 106, Num 107,
                 Num 108, Num 109, Num 110, Num 111, Num 112, Num 113, Num 114] 14
     = Some (Num 100)"
proof -
  let ?ps = "[Num 100, Num 102, Num 101, Num 105, Num 108, Num 107, Num 110, Num 112,
              Num 111, Num 115, Num 114, Num 116, Num 118, Num 117, Num 120]"
  let ?qs = "[Num 100, Num 101, Num 102, Num 103, Num 104, Num 105, Num 106, Num 107,
              Num 108, Num 109, Num 110, Num 111, Num 112, Num 113, Num 114]"
  have p1: "15 \<le> length ?ps" by simp
  have p2: "\<forall>p \<in> set ?ps. \<exists>a. p = Num a \<and> 0 < a" by simp
  have q1: "15 \<le> length ?qs" by simp
  have q2: "\<forall>p \<in> set ?qs. \<exists>a. p = Num a \<and> 0 < a" by simp
  have q3: "rsiAvgLoss ?qs 14 = Num 0"
    by (simp add: rsiAvgLoss_def rsiTotals_def priceChanges_def upt_rec jsub_def)
  from rsi_in_range [OF p1 p2] rsi_in_range [OF q1 q2] p1 q3 show ?thesis by blast
qed

lemma foldl_jadd_Num: "foldl jadd (Num a) (map Num xs) = Num (a + sum_list xs)"
  by (induction xs arbitrary: a) (simp_all add: add.assoc)

lemma jsum_Num: "jsum (map Num xs) = Num (sum_list xs)"
  by (simp add: jsum_def foldl_jadd_Num)



subsection \<open>Volatility\<close>














section \<open>Properties of the scorer\<close>

lemmas metric_defs = calculateMetrics_def errorsOf_def percentageErrorsOf_def
  directionalCorrectOf_def rawMae_def rawMape_def rawRmse_def rawDirectionalAccuracy_def
  absoluteError_def percentageError_def directionMatches_def basePrice_def jsum_def jsub_def
  roundFixed_def

lemma sqrt_example_A: "sqrt (9 / 2500000000) = 3 / 50000"
  by (rule real_sqrt_unique) (simp_all add: power2_eq_square)

lemma sqrt_example_B: "sqrt (1 / 10000000000) = 1 / 100000"
  by (rule real_sqrt_unique) (simp_all add: power2_eq_square)

lemma scored_example_A:
  "calculateMetrics [Num (10000006 / 100000)] [Num 100] (Num 100) =
     Inr \<lparr> absoluteErrors = [Num (6 / 100000)], percentageErrors = [Num (6 / 100000)],
            mae = Num (1 / 10000), mape = Num 0, rmse = Num (1 / 10000),
            directionalAccuracy = Num 0, directionalCorrect = [False] \<rparr>"
  by (simp add: metric_defs upt_rec sqrt_example_A)

lemma scored_example_B:
  "calculateMetrics [Num (10000001 / 100000)] [Num 100] (Num 100) =
     Inr \<lparr> absoluteErrors = [Num (1 / 100000)], percentageErrors = [Num (1 / 100000)],
            mae = Num 0, mape = Num 0, rmse = Num 0,
            directionalAccuracy = Num 0, directionalCorrect = [False] \<rparr>"
  by (simp add: metric_defs upt_rec sqrt_example_B)

text \<open>
  C5, as the code has it. Scoring predicted \<open>[100, 105]\<close> against actual \<open>[100, 105]\<close>
  with the anchor 100 yields \<open>mae = 0\<close>, \<open>rmse = 0\<close>, \<open>mape = 0\<close>,
  \<open>directionalAccuracy = 1\<close> and \<open>directionalCorrect = [true, true]\<close>: at index 0
  neither price is above the anchor, so both directions are \<open>'down'\<close> and they match.
\<close>

theorem scenario_two_scores:
  "calculateMetrics [Num 100, Num 105] [Num 100, Num 105] (Num 100) =
     Inr \<lparr> absoluteErrors = [Num 0, Num 0], percentageErrors = [Num 0, Num 0],
           mae = Num 0, mape = Num 0, rmse = Num 0, directionalAccuracy = Num 1,
           directionalCorrect = [True, True] \<rparr>"
  by (simp add: metric_defs upt_rec)

text \<open>
  C5, as stated, fails: the result does not have \<open>directionalCorrect = [false, true]\<close>.
\<close>

theorem scenario_two_counterexample:
  "calculateMetrics [Num 100, Num 105] [Num 100, Num 105] (Num 100) \<noteq>
     Inr \<lparr> absoluteErrors = [Num 0, Num 0], percentageErrors = [Num 0, Num 0],
           mae = Num 0, mape = Num 0, rmse = Num 0, directionalAccuracy = Num 1,
           directionalCorrect = [False, True] \<rparr>"
  by (simp add: metric_defs upt_rec)

text \<open>The percentage error of one pair of finite prices.\<close>

lemma percentageError_cases:
  "percentageError (Num p) (Num a) =
     (if a = 0 then (if p = 0 then NaN else PInf) else Num (\<bar>p - a\<bar> / \<bar>a\<bar> * 100))"
  by (simp add: percentageError_def jsub_def)

text \<open>
  C3. The percentage error is computed by a division that nothing guards: with an
  actual price of 0 it is \<open>Infinity\<close> (and \<open>NaN\<close> when the predicted price is 0 too),
  not 0, and \<open>mape\<close> with it.
\<close>

theorem percentage_error_zero_actual:
  "calculateMetrics [Num 100] [Num 0] (Num 100) =
     Inr \<lparr> absoluteErrors = [Num 100], percentageErrors = [PInf],
           mae = Num 100, mape = PInf, rmse = Num 100, directionalAccuracy = Num 1,
           directionalCorrect = [True] \<rparr>"
  by (simp add: metric_defs upt_rec)

lemma errorsOf_identical:
  "errorsOf (map Num xs) (map Num xs) = map Num (map (\<lambda>i. 0) [0 ..< length xs])"
  by (simp add: errorsOf_def absoluteError_def jsub_def)

lemma percentageErrorsOf_identical:
  assumes "\<forall>x \<in> set xs. x \<noteq> 0"
  shows "percentageErrorsOf (map Num xs) (map Num xs) = map Num (map (\<lambda>i. 0) [0 ..< length xs])"
  using assms by (simp add: percentageErrorsOf_def percentageError_def jsub_def)

lemma directionalCorrectOf_identical:
  "directionalCorrectOf s s c = map (\<lambda>i. True) [0 ..< length s]"
  by (simp add: directionalCorrectOf_def directionMatches_def)

lemma sum_list_zeros: "sum_list (map (\<lambda>i. 0::real) is) = 0"
  by (induction "is") simp_all

lemma foldl_squares_zero:
  "foldl (\<lambda>sum err. jadd sum (jmul err err)) (Num 0) (map Num (map (\<lambda>i. 0) is)) = Num 0"
  by (induction "is") simp_all

lemma roundFixed_zero: "roundFixed 0 d = 0"
  by (simp add: roundFixed_def)

lemma roundFixed_one: "roundFixed 1 4 = 1"
  by (simp add: roundFixed_def)

lemma scorer_identical_nonzero:
  assumes ne: "xs \<noteq> []" and nz: "\<forall>x \<in> set xs. x \<noteq> 0"
  shows "\<exists>m. calculateMetrics (map Num xs) (map Num xs) c = Inr m \<and>
             mae m = Num 0 \<and> mape m = Num 0 \<and> rmse m = Num 0 \<and> directionalAccuracy m = Num 1"
proof -
  have n: "real (length xs) \<noteq> 0" using ne by simp
  have 1: "toFixed (rawMae (map Num xs) (map Num xs)) 4 = Num 0"
    using n by (simp add: rawMae_def errorsOf_identical jsum_Num sum_list_zeros roundFixed_zero
        del: map_map)
  have 2: "toFixed (rawMape (map Num xs) (map Num xs)) 2 = Num 0"
    using n by (simp add: rawMape_def percentageErrorsOf_identical [OF nz] jsum_Num sum_list_zeros
        roundFixed_zero del: map_map)
  have 3: "toFixed (rawRmse (map Num xs) (map Num xs)) 4 = Num 0"
    using n by (simp add: rawRmse_def errorsOf_identical foldl_squares_zero roundFixed_zero
        del: map_map)
  have 4: "toFixed (rawDirectionalAccuracy (map Num xs) (map Num xs) c) 4 = Num 1"
    using n by (simp add: rawDirectionalAccuracy_def directionalCorrectOf_identical roundFixed_one)
  show ?thesis by (simp add: calculateMetrics_def 1 2 3 4)
qed

text \<open>
  C8. Scoring a sequence against itself gives \<open>mae = 0\<close>, \<open>rmse = 0\<close> and
  \<open>directionalAccuracy = 1\<close>, and \<open>mape = 0\<close> as long as no element is 0 (the lemma
  before). An element 0 makes the percentage error \<open>0 / 0\<close>, and \<open>mape\<close> is \<open>NaN\<close>.
\<close>

theorem scorer_identical_zero_element:
  "calculateMetrics [Num 0] [Num 0] (Num 1) =
     Inr \<lparr> absoluteErrors = [Num 0], percentageErrors = [NaN],
           mae = Num 0, mape = NaN, rmse = Num 0, directionalAccuracy = Num 1,
           directionalCorrect = [True] \<rparr>"
  by (simp add: metric_defs upt_rec)


section \<open>Properties of the aggregation\<close>

lemma orZero_NaN: "orZero x = (if x = NaN then Num 0 else x)"
  by (cases x) (auto simp: orZero_def)

lemma foldl_orZero:
  "foldl (\<lambda>sum r. jadd sum (orZero (f r))) a rs = foldl jadd a (map (\<lambda>r. orZero (f r)) rs)"
  by (induction rs arbitrary: a) simp_all

lemma aggregate_fields:
  assumes "rs \<noteq> []"
  shows "averageMAE (calculateAggregateMetrics rs) =
           toFixed (jdiv (foldl (\<lambda>sum r. jadd sum (orZero (mae (metrics r)))) (Num 0) rs)
                      (Num (real (length rs)))) 4"
    and "averageMAPE (calculateAggregateMetrics rs) =
           toFixed (jdiv (foldl (\<lambda>sum r. jadd sum (orZero (mape (metrics r)))) (Num 0) rs)
                      (Num (real (length rs)))) 2"
    and "averageRMSE (calculateAggregateMetrics rs) =
           toFixed (jdiv (foldl (\<lambda>sum r. jadd sum (orZero (rmse (metrics r)))) (Num 0) rs)
                      (Num (real (length rs)))) 4"
    and "averageDirectionalAccuracy (calculateAggregateMetrics rs) =
           toFixed (jdiv (foldl (\<lambda>sum r. jadd sum (orZero (directionalAccuracy (metrics r))))
                            (Num 0) rs)
                      (Num (real (length rs)))) 4"
  using assms by (simp_all add: calculateAggregateMetrics_def Let_def)

lemma mean_of_stored:
  "jdiv (foldl (\<lambda>sum r. jadd sum (orZero (f r))) (Num 0) rs) (Num (real (length rs)))
     = jmean (map (\<lambda>r. orZero (f r)) rs)"
  by (simp add: jmean_def jsum_def foldl_orZero)

lemma scored_fields:
  assumes "calculateMetrics p a c = Inr m"
  shows "mae m = toFixed (rawMae p a) 4" "mape m = toFixed (rawMape p a) 2"
    "rmse m = toFixed (rawRmse p a) 4"
    "directionalAccuracy m = toFixed (rawDirectionalAccuracy p a c) 4"
  using assms by (auto simp: calculateMetrics_def split: if_splits)

lemma stored_of_scored:
  assumes "list_all2 (\<lambda>r (p, a, c). calculateMetrics p a c = Inr (metrics r)) rs trials"
  shows "map (\<lambda>r. orZero (mae (metrics r))) rs =
           map (\<lambda>(p, a, c). orZero (toFixed (rawMae p a) 4)) trials"
    and "map (\<lambda>r. orZero (mape (metrics r))) rs =
           map (\<lambda>(p, a, c). orZero (toFixed (rawMape p a) 2)) trials"
    and "map (\<lambda>r. orZero (rmse (metrics r))) rs =
           map (\<lambda>(p, a, c). orZero (toFixed (rawRmse p a) 4)) trials"
    and "map (\<lambda>r. orZero (directionalAccuracy (metrics r))) rs =
           map (\<lambda>(p, a, c). orZero (toFixed (rawDirectionalAccuracy p a c) 4)) trials"
  using assms
  by (induction rs trials rule: list_all2_induct) (auto dest: scored_fields)

text \<open>
  C1, as the code has it. For every non-empty sequence of trial results that the scorer
  produced, each aggregate value is the arithmetic mean of the per-trial values as the
  scorer stored them, that is after rounding to 4 (2 for \<open>mape\<close>) decimal places,
  a stored \<open>NaN\<close> counting as 0; the mean is rounded in the same way.
\<close>

theorem aggregate_is_mean_of_rounded:
  assumes ne: "rs \<noteq> []"
    and scored: "list_all2 (\<lambda>r (p, a, c). calculateMetrics p a c = Inr (metrics r)) rs trials"
  shows "averageMAE (calculateAggregateMetrics rs) =
           toFixed (jmean (map (\<lambda>(p, a, c). orZero (toFixed (rawMae p a) 4)) trials)) 4 \<and>
         averageMAPE (calculateAggregateMetrics rs) =
           toFixed (jmean (map (\<lambda>(p, a, c). orZero (toFixed (rawMape p a) 2)) trials)) 2 \<and>
         averageRMSE (calculateAggregateMetrics rs) =
           toFixed (jmean (map (\<lambda>(p, a, c). orZero (toFixed (rawRmse p a) 4)) trials)) 4 \<and>
         averageDirectionalAccuracy (calculateAggregateMetrics rs) =
           toFixed (jmean (map (\<lambda>(p, a, c).
                      orZero (toFixed (rawDirectionalAccuracy p a c) 4)) trials)) 4"
  unfolding aggregate_fields [OF ne] mean_of_stored stored_of_scored [OF scored]
  by simp

theorem aggregate_is_mean_of_rounded_witness:
  "averageMAE (calculateAggregateMetrics
     [\<lparr> metrics = \<lparr> absoluteErrors = [Num (6 / 100000)], percentageErrors = [Num (6 / 100000)],
                     mae = Num (1 / 10000), mape = Num 0, rmse = Num (1 / 10000),
                     directionalAccuracy = Num 0, directionalCorrect = [False] \<rparr> \<rparr>,
      \<lparr> metrics = \<lparr> absoluteErrors = [Num (6 / 100000)], percentageErrors = [Num (6 / 100000)],
                     mae = Num (1 / 10000), mape = Num 0, rmse = Num (1 / 10000),
                     directionalAccuracy = Num 0, directionalCorrect = [False] \<rparr> \<rparr>,
      \<lparr> metrics = \<lparr> absoluteErrors = [Num (1 / 100000)], percentageErrors = [Num (1 / 100000)],
                     mae = Num 0, mape = Num 0, rmse = Num 0,
                     directionalAccuracy = Num 0, directionalCorrect = [False] \<rparr> \<rparr>])
   = toFixed (jmean [orZero (toFixed (rawMae [Num (10000006 / 100000)] [Num 100]) 4),
                     orZero (toFixed (rawMae [Num (10000006 / 100000)] [Num 100]) 4),
                     orZero (toFixed (rawMae [Num (10000001 / 100000)] [Num 100]) 4)]) 4"
proof -
  let ?A = "\<lparr> absoluteErrors = [Num (6 / 100000)], percentageErrors = [Num (6 / 100000)],
              mae = Num (1 / 10000), mape = Num 0, rmse = Num (1 / 10000),
              directionalAccuracy = Num 0, directionalCorrect = [False] \<rparr>"
  let ?B = "\<lparr> absoluteErrors = [Num (1 / 100000)], percentageErrors = [Num (1 / 100000)],
              mae = Num 0, mape = Num 0, rmse = Num 0,
              directionalAccuracy = Num 0, directionalCorrect = [False] \<rparr>"
  let ?rs = "[\<lparr> metrics = ?A \<rparr>, \<lparr> metrics = ?A \<rparr>, \<lparr> metrics = ?B \<rparr>]"
  let ?trials = "[([Num (10000006 / 100000)], [Num 100], Num 100),
                  ([Num (10000006 / 100000)], [Num 100], Num 100),
                  ([Num (10000001 / 100000)], [Num 100], Num 100)]"
  have h1: "?rs \<noteq> []" by simp
  have h2: "list_all2 (\<lambda>r (p, a, c). calculateMetrics p a c = Inr (metrics r)) ?rs ?trials"
    using scored_example_A scored_example_B by simp
  from aggregate_is_mean_of_rounded [OF h1 h2] show ?thesis by simp
qed

text \<open>
  C1, as stated, fails. Three trials with the exact mean absolute errors 0.00006,
  0.00006 and 0.00001 are stored with 0.0001, 0.0001 and 0; the aggregate is the mean of
  the stored values, 0.0001 after rounding, and not the mean 13/300000 of the exact
  values (which rounds to 0).
\<close>

theorem aggregate_unrounded_counterexample:
  "calculateMetrics [Num (10000006 / 100000)] [Num 100] (Num 100) =
     Inr \<lparr> absoluteErrors = [Num (6 / 100000)], percentageErrors = [Num (6 / 100000)],
            mae = Num (1 / 10000), mape = Num 0, rmse = Num (1 / 10000),
            directionalAccuracy = Num 0, directionalCorrect = [False] \<rparr> \<and>
   calculateMetrics [Num (10000001 / 100000)] [Num 100] (Num 100) =
     Inr \<lparr> absoluteErrors = [Num (1 / 100000)], percentageErrors = [Num (1 / 100000)],
            mae = Num 0, mape = Num 0, rmse = Num 0,
            directionalAccuracy = Num 0, directionalCorrect = [False] \<rparr> \<and>
   averageMAE (calculateAggregateMetrics
     [\<lparr> metrics = \<lparr> absoluteErrors = [Num (6 / 100000)], percentageErrors = [Num (6 / 100000)],
                     mae = Num (1 / 10000), mape = Num 0, rmse = Num (1 / 10000),
                     directionalAccuracy = Num 0, directionalCorrect = [False] \<rparr> \<rparr>,
      \<lparr> metrics = \<lparr> absoluteErrors = [Num (6 / 100000)], percentageErrors = [Num (6 / 100000)],
                     mae = Num (1 / 10000), mape = Num 0, rmse = Num (1 / 10000),
                     directionalAccuracy = Num 0, directionalCorrect = [False] \<rparr> \<rparr>,
      \<lparr> metrics = \<lparr> absoluteErrors = [Num (1 / 100000)], percentageErrors = [Num (1 / 100000)],
                     mae = Num 0, mape = Num 0, rmse = Num 0,
                     directionalAccuracy = Num 0, directionalCorrect = [False] \<rparr> \<rparr>])
     = Num (1 / 10000) \<and>
   jmean [rawMae [Num (10000006 / 100000)] [Num 100],
          rawMae [Num (10000006 / 100000)] [Num 100],
          rawMae [Num (10000001 / 100000)] [Num 100]] = Num (13 / 300000) \<and>
   toFixed (Num (13 / 300000)) 4 = Num 0"
proof (intro conjI)
  show "calculateMetrics [Num (10000006 / 100000)] [Num 100] (Num 100) =
     Inr \<lparr> absoluteErrors = [Num (6 / 100000)], percentageErrors = [Num (6 / 100000)],
            mae = Num (1 / 10000), mape = Num 0, rmse = Num (1 / 10000),
            directionalAccuracy = Num 0, directionalCorrect = [False] \<rparr>"
    by (rule scored_example_A)
  show "calculateMetrics [Num (10000001 / 100000)] [Num 100] (Num 100) =
     Inr \<lparr> absoluteErrors = [Num (1 / 100000)], percentageErrors = [Num (1 / 100000)],
            mae = Num 0, mape = Num 0, rmse = Num 0,
            directionalAccuracy = Num 0, directionalCorrect = [False] \<rparr>"
    by (rule scored_example_B)
  show "averageMAE (calculateAggregateMetrics
     [\<lparr> metrics = \<lparr> absoluteErrors = [Num (6 / 100000)], percentageErrors = [Num (6 / 100000)],
                     mae = Num (1 / 10000), mape = Num 0, rmse = Num (1 / 10000),
                     directionalAccuracy = Num 0, directionalCorrect = [False] \<rparr> \<rparr>,
      \<lparr> metrics = \<lparr> absoluteErrors = [Num (6 / 100000)], percentageErrors = [Num (6 / 100000)],
                     mae = Num (1 / 10000), mape = Num 0, rmse = Num (1 / 10000),
                     directionalAccuracy = Num 0, directionalCorrect = [False] \<rparr> \<rparr>,
      \<lparr> metrics = \<lparr> absoluteErrors = [Num (1 / 100000)], percentageErrors = [Num (1 / 100000)],
                     mae = Num 0, mape = Num 0, rmse = Num 0,
                     directionalAccuracy = Num 0, directionalCorrect = [False] \<rparr> \<rparr>])
     = Num (1 / 10000)"
    by (simp add: calculateAggregateMetrics_def orZero_def roundFixed_def)
  show "jmean [rawMae [Num (10000006 / 100000)] [Num 100],
          rawMae [Num (10000006 / 100000)] [Num 100],
          rawMae [Num (10000001 / 100000)] [Num 100]] = Num (13 / 300000)"
    by (simp add: jmean_def metric_defs upt_rec)
  show "toFixed (Num (13 / 300000)) 4 = Num 0"
    by (simp add: roundFixed_def)
qed


section \<open>Properties of the indicator snapshot\<close>

lemma validPrice_strictlyPositive: "validPrice p = strictlyPositive p"
  by (cases p rule: strictlyPositive.cases) auto

text \<open>
  C10. \<open>calculateAllIndicators\<close> gives the same snapshot on a price list and on its
  sublist of strictly positive entries: entries that are \<open>null\<close>, \<open>NaN\<close>, zero or
  negative influence no indicator. The function is total: no input makes it fail.
\<close>

theorem indicators_ignore_invalid_entries:
  "calculateAllIndicators prices cur =
     calculateAllIndicators (filter strictlyPositive prices) cur"
proof -
  have "validPrice = strictlyPositive" by (rule ext) (rule validPrice_strictlyPositive)
  then show ?thesis by (simp add: calculateAllIndicators_def)
qed


section \<open>Properties of a single backtest\<close>

lemma synthesizePath_interpolates:
  assumes "1 \<le> n"
  shows "synthesizePath (Num t) (Num c) n =
           map (\<lambda>i. Num (c + (t - c) * real i / real n)) [1 ..< Suc n]"
proof (cases "n = 1")
  case True
  then show ?thesis by (simp add: synthesizePath_def)
next
  case False
  then show ?thesis using assms by (simp add: synthesizePath_def jsub_def Let_def)
qed

text \<open>
  C6. When the forecaster returns a target price \<open>t\<close> (a number other than 0) for a
  horizon of \<open>n \<ge> 1\<close> days, the synthesized path is
  \<open>predicted[i] = currentPrice + (t - currentPrice) * i / n\<close> for \<open>i = 1 .. n\<close>.
  The witness is the scenario \<open>priceTarget = 110\<close>, \<open>daysToPredict = 2\<close>,
  \<open>currentPrice = 100\<close> with the path \<open>[105, 110]\<close>.
\<close>

theorem path_is_linear_interpolation:
  assumes n: "1 \<le> n"
    and target: "forecastField priceTarget r = Some (Num t)" "t \<noteq> 0"
  shows "synthesizePath (toNumber (choosePredictedPrice r)) (Num c) n =
           map (\<lambda>i. Num (c + (t - c) * real i / real n)) [1 ..< Suc n]"
  using target by (simp add: choosePredictedPrice_def synthesizePath_interpolates [OF n])

theorem path_is_linear_interpolation_witness:
  "synthesizePath
     (toNumber (choosePredictedPrice
        \<lparr> prediction = Some \<lparr> forecastDirection = Some ''UP'', priceTarget = Some (Num 110),
                               confidence = Some (Num 70), analysis = None \<rparr>,
          echoedPrice = Some (Num 100) \<rparr>))
     (Num 100) 2 = [Num 105, Num 110]"
proof -
  let ?r = "\<lparr> prediction = Some \<lparr> forecastDirection = Some ''UP'', priceTarget = Some (Num 110),
                               confidence = Some (Num 70), analysis = None \<rparr>,
          echoedPrice = Some (Num 100) \<rparr>"
  have h1: "(1::nat) \<le> 2" by simp
  have h2: "forecastField priceTarget ?r = Some (Num 110)" by (simp add: forecastField_def)
  have h3: "(110::real) \<noteq> 0" by simp
  from path_is_linear_interpolation [OF h1 h2 h3, of 100] show ?thesis
    by (simp add: upt_rec)
qed


text \<open>The same path as \<open>runBacktest\<close> stores it in its result.\<close>

lemma scenarioFour_run:
  "map_sum id predictedPrices (runBacktest scenarioFour ''BTC'' 0 2) = Inr [Num 105, Num 110]"
  by (simp add: runBacktest_def scenarioFour_def startOfDay_def addDays_def msPerDay_def
      Let_def calculateMetrics_def synthesizePath_def choosePredictedPrice_def forecastField_def
      calculateAllIndicators_def jsub_def upt_rec)


section \<open>Properties of a batch\<close>

lemma length_succeededTrials:
  "length (succeededTrials run ds) = length (filter (\<lambda>d. succeeds (run d)) ds)"
  by (induction ds) (auto split: sum.splits)

lemma trialDates_past: "0 < stepDays \<Longrightarrow> endDate < startDate \<Longrightarrow> trialDates startDate endDate stepDays = []"
proof -
  assume s: "0 < stepDays" and lt: "endDate < startDate"
  have m: "0 < stepDays * msPerDay" using s by (simp add: msPerDay_def)
  have "(endDate - startDate) div (stepDays * msPerDay) < 0"
    using lt m by (simp add: pos_imp_zdiv_neg_iff)
  then show ?thesis by (simp add: trialDates_def)
qed

lemma trialDates_step:
  assumes s: "0 < stepDays" and le: "startDate \<le> endDate"
  shows "trialDates startDate endDate stepDays =
           startDate # trialDates (addDays startDate stepDays) endDate stepDays"
proof -
  define m where "m = stepDays * msPerDay"
  have m: "0 < m" using s by (simp add: m_def msPerDay_def)
  define j where "j = nat ((endDate - addDays startDate stepDays) div m + 1)"
  have q: "0 \<le> (endDate - startDate) div m" using le m by (simp add: pos_imp_zdiv_nonneg_iff)
  have "(endDate - addDays startDate stepDays) div m = (endDate - startDate - m) div m"
    by (simp add: addDays_def m_def algebra_simps)
  also have "\<dots> = (endDate - startDate) div m - 1"
    using m div_add_self2 [of m "endDate - startDate - m"] by simp
  finally have d: "(endDate - addDays startDate stepDays) div m = (endDate - startDate) div m - 1" .
  have cnt: "nat ((endDate - startDate) div m + 1) = Suc j"
    using q by (simp add: j_def d)
  have "map (\<lambda>k. addDays startDate (int k * stepDays)) [0 ..< Suc j] =
        startDate # map (\<lambda>k. addDays (addDays startDate stepDays) (int k * stepDays)) [0 ..< j]"
    by (simp add: upt_conv_Cons map_Suc_upt [symmetric] addDays_def algebra_simps del: upt_Suc)
  then show ?thesis
    unfolding trialDates_def m_def [symmetric] cnt j_def [symmetric] .
qed

lemma backtestLoop_returns:
  assumes s: "0 < stepDays"
  shows "backtestLoop run endDate stepDays currentDate acc =
           Some (acc @ succeededTrials run (trialDates currentDate endDate stepDays))"
proof (induction "length (trialDates currentDate endDate stepDays)" arbitrary: currentDate acc)
  case 0
  have "\<not> currentDate \<le> endDate"
  proof
    assume "currentDate \<le> endDate"
    from trialDates_step [OF s this] 0 show False by simp
  qed
  then show ?case using trialDates_past [OF s, of endDate currentDate]
    by (subst backtestLoop.simps) simp
next
  case (Suc k)
  have le: "currentDate \<le> endDate"
  proof (rule ccontr)
    assume "\<not> currentDate \<le> endDate"
    then have "trialDates currentDate endDate stepDays = []"
      using trialDates_past [OF s] by simp
    with Suc.hyps(2) show False by simp
  qed
  note step = trialDates_step [OF s le]
  have k: "k = length (trialDates (addDays currentDate stepDays) endDate stepDays)"
    using Suc.hyps(2) by (simp add: step)
  show ?case
    by (subst backtestLoop.simps) (simp add: le Suc.hyps(1) [OF k] step split: sum.splits)
qed

text \<open>With a step that is not positive the loop, once entered, never returns.\<close>

lemma backtestLoop_no_result:
  assumes "backtestLoop run endDate stepDays currentDate acc = Some y"
  shows "\<not> (stepDays \<le> 0 \<and> currentDate \<le> endDate)"
proof (rule backtestLoop.raw_induct
    [where P = "\<lambda>run e s c acc y. \<not> (s \<le> 0 \<and> c \<le> e)", OF _ assms], goal_cases)
  case (1 bl run e s c acc y)
  show ?case
  proof
    assume a: "s \<le> 0 \<and> c \<le> e"
    then have "s * msPerDay \<le> 0"
      by (simp add: msPerDay_def)
    then have le: "addDays c s \<le> e"
      using a by (simp add: addDays_def)
    from 1(2) a have "bl run e s (addDays c s)
        (case run c of Inl err \<Rightarrow> acc | Inr result \<Rightarrow> acc @ [result]) = Some y"
      by simp
    from 1(1) [OF this] a le show False by simp
  qed
qed

lemma backtestLoop_diverges:
  assumes "stepDays \<le> 0" "currentDate \<le> endDate"
  shows "backtestLoop run endDate stepDays currentDate acc = None"
proof (cases "backtestLoop run endDate stepDays currentDate acc")
  case None
  then show ?thesis .
next
  case (Some y)
  from backtestLoop_no_result [OF this] assms show ?thesis by simp
qed

lemma runMultipleBacktests_diverges:
  assumes "stepDays \<le> 0" "startDate \<le> endDate"
  shows "runMultipleBacktests env a startDate endDate stepDays n = None"
  by (simp add: runMultipleBacktests_def backtestLoop_diverges [OF assms])

text \<open>
  C2. A batch with a positive step returns, without an error, whatever its trials do:
  its results are those of the trials that returned, in order; \<open>totalTests\<close> is the
  number of trial dates whose trial returned; the aggregate metrics are those of the
  results alone; and with no result they are all 0.
\<close>

theorem batch_excludes_failed_trials:
  assumes s: "0 < stepDays"
  shows "\<exists>batch. runMultipleBacktests env a startDate endDate stepDays n = Some (Inr batch) \<and>
           results batch =
             succeededTrials (\<lambda>d. runBacktest env a d n) (trialDates startDate endDate stepDays) \<and>
           totalTests batch =
             length (filter (\<lambda>d. succeeds (runBacktest env a d n))
                       (trialDates startDate endDate stepDays)) \<and>
           aggregate batch = calculateAggregateMetrics (results batch) \<and>
           (results batch = [] \<longrightarrow>
              aggregate batch = \<lparr> averageMAE = Num 0, averageMAPE = Num 0, averageRMSE = Num 0,
                                  averageDirectionalAccuracy = Num 0 \<rparr>)"
proof -
  let ?rs = "succeededTrials (\<lambda>d. runBacktest env a d n) (trialDates startDate endDate stepDays)"
  let ?batch = "\<lparr> batchAsset = a, dateRange = (startDate, endDate), batchStepDays = stepDays,
                  batchDaysToPredict = n, totalTests = length ?rs, results = ?rs,
                  aggregate = calculateAggregateMetrics ?rs \<rparr>"
  have run: "runMultipleBacktests env a startDate endDate stepDays n = Some (Inr ?batch)"
    by (simp add: runMultipleBacktests_def backtestLoop_returns [OF s] Let_def)
  have empty: "?rs = [] \<longrightarrow>
      calculateAggregateMetrics ?rs =
        \<lparr> averageMAE = Num 0, averageMAPE = Num 0, averageRMSE = Num 0,
          averageDirectionalAccuracy = Num 0 \<rparr>"
    by (simp add: calculateAggregateMetrics_def)
  have "results ?batch = ?rs" "aggregate ?batch = calculateAggregateMetrics (results ?batch)"
    "totalTests ?batch = length (filter (\<lambda>d. succeeds (runBacktest env a d n))
                       (trialDates startDate endDate stepDays))"
    by (simp_all add: length_succeededTrials)
  with run empty show ?thesis by (intro exI [of _ ?batch]) simp
qed

lemma scenarioThree_trials:
  "succeeds (runBacktest scenarioThree ''BTC'' 0 1)"
  "\<not> succeeds (runBacktest scenarioThree ''BTC'' 604800000 1)"
  "succeeds (runBacktest scenarioThree ''BTC'' 1209600000 1)"
  by (simp_all add: runBacktest_def scenarioThree_def startOfDay_def addDays_def msPerDay_def
      Let_def calculateMetrics_def synthesizePath_def)

lemma scenarioThree_dates: "trialDates 0 1209600000 7 = [0, 604800000, 1209600000]"
  by (simp add: trialDates_def addDays_def msPerDay_def upt_rec)

lemma scenarioThree_dates_single: "trialDates 604800000 604800000 7 = [604800000]"
  by (simp add: trialDates_def addDays_def msPerDay_def upt_rec)

theorem batch_excludes_failed_trials_witness:
  "(0::int) < 7 \<and>
   (\<exists>batch. runMultipleBacktests scenarioThree ''BTC'' 0 1209600000 7 1 = Some (Inr batch) \<and>
             totalTests batch = 2 \<and> length (results batch) = 2) \<and>
   (\<exists>batch. runMultipleBacktests scenarioThree ''BTC'' 604800000 604800000 7 1
               = Some (Inr batch) \<and>
             totalTests batch = 0 \<and> results batch = [] \<and>
             aggregate batch = \<lparr> averageMAE = Num 0, averageMAPE = Num 0, averageRMSE = Num 0,
                                 averageDirectionalAccuracy = Num 0 \<rparr>)"
proof -
  have h: "(0::int) < 7" by simp
  from batch_excludes_failed_trials [OF h, of scenarioThree "''BTC''" 0 1209600000 1]
  obtain batch where
    b: "runMultipleBacktests scenarioThree ''BTC'' 0 1209600000 7 1 = Some (Inr batch)"
      "results batch = succeededTrials (\<lambda>d. runBacktest scenarioThree ''BTC'' d 1)
                         (trialDates 0 1209600000 7)"
      "totalTests batch = length (filter (\<lambda>d. succeeds (runBacktest scenarioThree ''BTC'' d 1))
                                   (trialDates 0 1209600000 7))"
    by blast
  have "totalTests batch = 2"
    using scenarioThree_trials by (simp add: b(3) scenarioThree_dates)
  moreover have "length (results batch) = 2"
    unfolding b(2) length_succeededTrials
    using scenarioThree_trials by (simp add: scenarioThree_dates)
  ultimately have first: "\<exists>batch. runMultipleBacktests scenarioThree ''BTC'' 0 1209600000 7 1
      = Some (Inr batch) \<and> totalTests batch = 2 \<and> length (results batch) = 2"
    using b(1) by simp
  from batch_excludes_failed_trials [OF h, of scenarioThree "''BTC''" 604800000 604800000 1]
  obtain none where
    n: "runMultipleBacktests scenarioThree ''BTC'' 604800000 604800000 7 1 = Some (Inr none)"
      "results none = succeededTrials (\<lambda>d. runBacktest scenarioThree ''BTC'' d 1)
                         (trialDates 604800000 604800000 7)"
      "totalTests none = length (filter (\<lambda>d. succeeds (runBacktest scenarioThree ''BTC'' d 1))
                                   (trialDates 604800000 604800000 7))"
      "results none = [] \<longrightarrow>
         aggregate none = \<lparr> averageMAE = Num 0, averageMAPE = Num 0, averageRMSE = Num 0,
                             averageDirectionalAccuracy = Num 0 \<rparr>"
    by blast
  have t: "totalTests none = 0"
    using scenarioThree_trials by (simp add: n(3) scenarioThree_dates_single)
  have "length (results none) = 0"
    unfolding n(2) length_succeededTrials
    using scenarioThree_trials by (simp add: scenarioThree_dates_single)
  then have e: "results none = []" by simp
  with n(1) n(4) t have "\<exists>batch. runMultipleBacktests scenarioThree ''BTC'' 604800000 604800000 7 1
               = Some (Inr batch) \<and>
             totalTests batch = 0 \<and> results batch = [] \<and>
             aggregate batch = \<lparr> averageMAE = Num 0, averageMAPE = Num 0, averageRMSE = Num 0,
                                 averageDirectionalAccuracy = Num 0 \<rparr>"
    by blast
  with first h show ?thesis by blast
qed

end
